theory Spec2Isabelle
  imports Main
begin

section \<open>Strings of the host language\<close>

text \<open>
  The handlers of \<^verbatim>\<open>src/index.ts\<close> build their replies with template literals.
  Strings are modelled as \<^typ>\<open>string\<close>; the pictographs that open some messages are
  written as their UTF-8 bytes. \<^verbatim>\<open>length\<close> and \<^verbatim>\<open>substring\<close> of the source count
  UTF-16 units, which is the same count on ASCII text.
\<close>

definition check_mark :: string where
  "check_mark = [CHR 0xE2, CHR 0x9C, CHR 0x85]"

definition warning_sign :: string where
  "warning_sign = [CHR 0xE2, CHR 0x9A, CHR 0xA0, CHR 0xEF, CHR 0xB8, CHR 0x8F]"

definition wastebasket :: string where
  "wastebasket = [CHR 0xF0, CHR 0x9F, CHR 0x97, CHR 0x91, CHR 0xEF, CHR 0xB8, CHR 0x8F]"

definition digit_char :: "nat \<Rightarrow> char" where
  "digit_char d = ''0123456789abcdef'' ! d"

text \<open>
  Decimal rendering of a number inside a template literal. Pull request numbers and the
  counts of the forge are integers; they are modelled as unbounded integers (the source
  adds them as doubles, which is exact below \<^verbatim>\<open>2^53\<close>).
\<close>

function show_nat :: "nat \<Rightarrow> string" where
  "show_nat n = (if n < 10 then [digit_char n] else show_nat (n div 10) @ [digit_char (n mod 10)])"
  by pat_completeness auto
termination
  by (relation "measure id") auto

definition show_int :: "int \<Rightarrow> string" where
  "show_int i = (if i < 0 then CHR ''-'' # show_nat (nat (- i)) else show_nat (nat i))"

text \<open>\<^verbatim>\<open>Array.prototype.join\<close>.\<close>

fun join :: "string \<Rightarrow> string list \<Rightarrow> string" where
  "join sep [] = []"
| "join sep [x] = x"
| "join sep (x # y # ys) = x @ sep @ join sep (y # ys)"

text \<open>\<^verbatim>\<open>s.substring(0, n)\<close> and \<^verbatim>\<open>s.charAt(0).toUpperCase() + s.slice(1)\<close>.\<close>

definition substring0 :: "string \<Rightarrow> nat \<Rightarrow> string" where
  "substring0 s n = take n s"

definition toUpperCase_char :: "char \<Rightarrow> char" where
  "toUpperCase_char c =
     (case map_of (zip ''abcdefghijklmnopqrstuvwxyz'' ''ABCDEFGHIJKLMNOPQRSTUVWXYZ'') c of
        None \<Rightarrow> c | Some u \<Rightarrow> u)"

definition capitalize :: "string \<Rightarrow> string" where
  "capitalize s = (case s of [] \<Rightarrow> [] | c # cs \<Rightarrow> toUpperCase_char c # cs)"

text \<open>Truthiness of an optional string and of an optional number.\<close>

definition truthy_string :: "string option \<Rightarrow> bool" where
  "truthy_string s = (case s of None \<Rightarrow> False | Some t \<Rightarrow> t \<noteq> [])"

definition truthy_number :: "int option \<Rightarrow> bool" where
  "truthy_number n = (case n of None \<Rightarrow> False | Some k \<Rightarrow> k \<noteq> 0)"

text \<open>
  \<^verbatim>\<open>x || fallback\<close> on an optional string. Where \<open>s\<close> is truthy, \<open>or_else s []\<close> is the
  string itself.
\<close>

definition or_else :: "string option \<Rightarrow> string \<Rightarrow> string" where
  "or_else s fallback = (case s of None \<Rightarrow> fallback | Some t \<Rightarrow> if t = [] then fallback else t)"

text \<open>\<^verbatim>\<open>Buffer.from(s).toString('base64')\<close>, on the bytes of the string.\<close>

definition b64_char :: "nat \<Rightarrow> char" where
  "b64_char n = ''ABCDEFGHIJKLMNOPQRSTUVWXYZabcdefghijklmnopqrstuvwxyz0123456789+/'' ! n"

fun base64_bytes :: "nat list \<Rightarrow> string" where
  "base64_bytes (a # b # c # rest) =
     [b64_char (a div 4), b64_char ((a mod 4) * 16 + b div 16),
      b64_char ((b mod 16) * 4 + c div 64), b64_char (c mod 64)] @ base64_bytes rest"
| "base64_bytes [a, b] =
     [b64_char (a div 4), b64_char ((a mod 4) * 16 + b div 16), b64_char ((b mod 16) * 4), CHR ''='']"
| "base64_bytes [a] = [b64_char (a div 4), b64_char ((a mod 4) * 16), CHR ''='', CHR ''='']"
| "base64_bytes [] = []"

definition base64 :: "string \<Rightarrow> string" where
  "base64 s = base64_bytes (map of_char s)"

subsection \<open>\<^verbatim>\<open>JSON.stringify(value, null, 2)\<close>\<close>

datatype json = JNull | JBool bool | JNumber int | JString string
  | JArray "json list" | JObject "(string \<times> json) list"

definition quote_char :: "char \<Rightarrow> string" where
  "quote_char c =
     (if c = CHR 0x22 then [CHR 0x5C, CHR 0x22]
      else if c = CHR 0x5C then [CHR 0x5C, CHR 0x5C]
      else if c = CHR 0x08 then [CHR 0x5C, CHR ''b'']
      else if c = CHR 0x0C then [CHR 0x5C, CHR ''f'']
      else if c = CHR 0x0A then [CHR 0x5C, CHR ''n'']
      else if c = CHR 0x0D then [CHR 0x5C, CHR ''r'']
      else if c = CHR 0x09 then [CHR 0x5C, CHR ''t'']
      else if (of_char c :: nat) < 32
        then [CHR 0x5C, CHR ''u'', CHR ''0'', CHR ''0'',
              digit_char (of_char c div 16), digit_char (of_char c mod 16)]
      else [c])"

definition quote :: "string \<Rightarrow> string" where
  "quote s = [CHR 0x22] @ concat (map quote_char s) @ [CHR 0x22]"

definition line_break :: "nat \<Rightarrow> string" where
  "line_break ind = CHR 0x0A # replicate ind (CHR '' '')"

fun stringify :: "nat \<Rightarrow> nat \<Rightarrow> json \<Rightarrow> string" where
  "stringify gap ind JNull = ''null''"
| "stringify gap ind (JBool b) = (if b then ''true'' else ''false'')"
| "stringify gap ind (JNumber n) = show_int n"
| "stringify gap ind (JString s) = quote s"
| "stringify gap ind (JArray xs) =
     (if xs = [] then ''[]''
      else ''['' @ line_break (ind + gap) @
           join ('','' @ line_break (ind + gap)) (map (stringify gap (ind + gap)) xs) @
           line_break ind @ '']'')"
| "stringify gap ind (JObject kvs) =
     (if kvs = [] then ''{}''
      else ''{'' @ line_break (ind + gap) @
           join ('','' @ line_break (ind + gap))
             (map (\<lambda>(k, v). quote k @ '': '' @ stringify gap (ind + gap) v) kvs) @
           line_break ind @ ''}'')"

definition JSON_stringify :: "json \<Rightarrow> string" where
  "JSON_stringify v = stringify 2 0 v"

text \<open>A property whose value is \<^verbatim>\<open>undefined\<close> is left out of the rendered object.\<close>

definition optional_property :: "string \<Rightarrow> string option \<Rightarrow> (string \<times> json) list" where
  "optional_property k v = (case v of None \<Rightarrow> [] | Some s \<Rightarrow> [(k, JString s)])"

section \<open>The forge, seen through the API client\<close>

text \<open>The fields of the forge's answers that the handlers read.\<close>

record pull =
  pr_number :: int
  pr_title :: string
  pr_body :: "string option"
  pr_html_url :: string
  pr_state :: string
  pr_created_at :: string
  pr_user_login :: "string option"
  pr_mergeable :: "bool option"

record pull_file =
  file_filename :: string
  file_status :: string
  file_additions :: int
  file_deletions :: int
  file_changes :: int
  file_patch :: "string option"

record repo_data =
  repo_owner_login :: string
  repo_name :: string
  repo_default_branch :: string
  repo_html_url :: string

record repository_file =
  rf_path :: string
  rf_content :: string

record create_params =
  cp_name :: string
  cp_description :: string
  cp_private :: bool
  cp_auto_init :: bool

record tree_item =
  ti_path :: string
  ti_mode :: string
  ti_type :: string
  ti_sha :: string

text \<open>One constructor per route handed to \<^verbatim>\<open>octokit.request\<close>, with its parameters.\<close>

datatype call =
    GET_pulls string string string
  | GET_pull string string int
  | POST_issue_comments string string int string
  | POST_requested_reviewers string string int "string list"
  | PUT_merge string string int "string option" "string option" string
  | GET_pull_files string string int
  | PATCH_issue string string int string
  | POST_user_repos create_params
  | POST_orgs_repos string create_params
  | GET_git_ref string string string
  | POST_git_blobs string string string string
  | GET_git_trees string string string string
  | POST_git_trees string string string "tree_item list"
  | POST_git_commits string string string string "string list"
  | PATCH_git_refs string string string string
  | GET_repo string string
  | DELETE_repo string string

text \<open>What a rejected request carries: an optional HTTP status and a message.\<close>

datatype api_error = RequestError (err_status: "nat option") (err_message: string)

text \<open>
  The client is a parameter. Each route answers from the calls made so far and the
  call at hand, either with an error or with typed data; nothing else is assumed of it.
  The data of a route is what the handlers read of its answer: the pull requests, the
  changed files, the created repository, the sha of a ref (\<^verbatim>\<open>data.object.sha\<close>), of a
  blob, a tree or a commit (\<^verbatim>\<open>data.sha\<close>), and nothing for the routes whose answer is not
  read.
\<close>

record octokit =
  pulls_list :: "call list \<Rightarrow> call \<Rightarrow> api_error + pull list"
  pulls_get :: "call list \<Rightarrow> call \<Rightarrow> api_error + pull"
  issues_create_comment :: "call list \<Rightarrow> call \<Rightarrow> api_error + unit"
  pulls_request_reviewers :: "call list \<Rightarrow> call \<Rightarrow> api_error + unit"
  pulls_merge :: "call list \<Rightarrow> call \<Rightarrow> api_error + unit"
  pulls_list_files :: "call list \<Rightarrow> call \<Rightarrow> api_error + pull_file list"
  issues_update :: "call list \<Rightarrow> call \<Rightarrow> api_error + unit"
  repos_create :: "call list \<Rightarrow> call \<Rightarrow> api_error + repo_data"
  git_get_ref :: "call list \<Rightarrow> call \<Rightarrow> api_error + string"
  git_create_blob :: "call list \<Rightarrow> call \<Rightarrow> api_error + string"
  git_get_tree :: "call list \<Rightarrow> call \<Rightarrow> api_error + string"
  git_create_tree :: "call list \<Rightarrow> call \<Rightarrow> api_error + string"
  git_create_commit :: "call list \<Rightarrow> call \<Rightarrow> api_error + string"
  git_update_ref :: "call list \<Rightarrow> call \<Rightarrow> api_error + unit"
  repos_get :: "call list \<Rightarrow> call \<Rightarrow> api_error + unit"
  repos_delete :: "call list \<Rightarrow> call \<Rightarrow> api_error + unit"

section \<open>Asynchronous code as a computation over the call log\<close>

text \<open>
  A computation takes the log of calls issued so far and returns a value or a thrown
  error, with the extended log.
\<close>

type_synonym 'a io = "call list \<Rightarrow> (api_error + 'a) \<times> call list"

definition request :: "(call list \<Rightarrow> call \<Rightarrow> api_error + 'a) \<Rightarrow> call \<Rightarrow> 'a io" where
  "request route c tr = (route tr c, tr @ [c])"

definition return_io :: "'a \<Rightarrow> 'a io" where
  "return_io x tr = (Inr x, tr)"

definition throw_io :: "api_error \<Rightarrow> 'a io" where
  "throw_io e tr = (Inl e, tr)"

definition await :: "'a io \<Rightarrow> ('a \<Rightarrow> 'b io) \<Rightarrow> 'b io" where
  "await m k tr = (case m tr of (Inl e, tr') \<Rightarrow> (Inl e, tr') | (Inr x, tr') \<Rightarrow> k x tr')"

definition try_catch :: "'a io \<Rightarrow> (api_error \<Rightarrow> 'a io) \<Rightarrow> 'a io" where
  "try_catch body handler tr = (case body tr of (Inl e, tr') \<Rightarrow> handler e tr' | (Inr x, tr') \<Rightarrow> (Inr x, tr'))"

text \<open>
  \<^verbatim>\<open>Promise.all(xs.map(f))\<close>: every request of the list is issued, in list order, before
  any answer is looked at; the result is the list of answers, or a rejection when one
  request was rejected. Which rejection wins depends on timing in the source; the model
  takes the earliest in list order, and no property below depends on that choice.
\<close>

fun promise_all :: "'a io list \<Rightarrow> 'a list io" where
  "promise_all [] tr = (Inr [], tr)"
| "promise_all (m # ms) tr =
     (case m tr of (r, tr1) \<Rightarrow>
        (case promise_all ms tr1 of (rs, tr2) \<Rightarrow>
           ((case r of Inl e \<Rightarrow> Inl e
             | Inr x \<Rightarrow> (case rs of Inl e' \<Rightarrow> Inl e' | Inr xs \<Rightarrow> Inr (x # xs))), tr2)))"

section \<open>The response envelope\<close>

text \<open>
  The object a handler returns: its content blocks (all of type text here) and the
  optional flag \<^verbatim>\<open>isError\<close>, which the handlers either leave out or set to true.
\<close>

datatype content_block = TextContent (block_text: string)

record envelope =
  content :: "content_block list"
  isError :: "bool option"

definition text_result :: "string \<Rightarrow> envelope" where
  "text_result t = \<lparr>content = [TextContent t], isError = None\<rparr>"

definition error_result :: "string \<Rightarrow> envelope" where
  "error_result t = \<lparr>content = [TextContent t], isError = Some True\<rparr>"

section \<open>The tool handlers\<close>

text \<open>
  Each handler below follows the body of the function registered with \<^verbatim>\<open>server.tool\<close>
  under the same name: the \<^verbatim>\<open>try\<close> block is the first argument of \<^const>\<open>try_catch\<close>,
  the \<^verbatim>\<open>catch\<close> block the second.
\<close>

subsection \<open>discuss-pr and list-prs\<close>

definition pr_listing :: "pull \<Rightarrow> json" where
  "pr_listing pr =
     JObject ([(''number'', JNumber (pr_number pr)),
               (''title'', JString (pr_title pr)),
               (''url'', JString (pr_html_url pr)),
               (''state'', JString (pr_state pr)),
               (''created_at'', JString (pr_created_at pr))]
              @ optional_property ''user'' (pr_user_login pr))"

definition prDetails :: "pull \<Rightarrow> json" where
  "prDetails pr =
     JObject ([(''number'', JNumber (pr_number pr)),
               (''title'', JString (pr_title pr)),
               (''body'', JString (or_else (pr_body pr) ''No description provided'')),
               (''url'', JString (pr_html_url pr)),
               (''state'', JString (pr_state pr)),
               (''created_at'', JString (pr_created_at pr))]
              @ optional_property ''user'' (pr_user_login pr))"

definition discuss_pr :: "octokit \<Rightarrow> string \<Rightarrow> string \<Rightarrow> int option \<Rightarrow> string option \<Rightarrow> envelope io" where
  "discuss_pr octokit owner repo prNumber query =
     try_catch
       (case prNumber of
          None \<Rightarrow>
            await (request (pulls_list octokit) (GET_pulls owner repo ''open'')) (\<lambda>data.
            return_io (text_result
              (''Open PRs for '' @ owner @ ''/'' @ repo @ '':\<newline>\<newline>'' @
               JSON_stringify (JArray (map pr_listing data)))))
        | Some n \<Rightarrow>
            await (request (pulls_get octokit) (GET_pull owner repo n)) (\<lambda>pr.
            return_io (text_result
              (if truthy_string query
               then ''Discussion query for PR #'' @ show_int n @ '': '' @ or_else query [] @
                    ''\<newline>\<newline>Details:\<newline>'' @ JSON_stringify (prDetails pr)
               else ''Details for PR #'' @ show_int n @ '':\<newline>'' @ JSON_stringify (prDetails pr)))))
       (\<lambda>error.
          return_io (error_result
            (''Error fetching PR '' @
             (if truthy_number prNumber then ''#'' @ show_int (case prNumber of Some n \<Rightarrow> n | None \<Rightarrow> 0) else ''s'') @
             '': '' @ err_message error)))"

text \<open>The \<^verbatim>\<open>state\<close> argument of list-prs is one of three words; it defaults to open.\<close>

datatype pr_filter = StateOpen | StateClosed | StateAll

fun filter_word :: "pr_filter \<Rightarrow> string" where
  "filter_word StateOpen = ''open''"
| "filter_word StateClosed = ''closed''"
| "filter_word StateAll = ''all''"

definition list_prs :: "octokit \<Rightarrow> string \<Rightarrow> string \<Rightarrow> pr_filter \<Rightarrow> envelope io" where
  "list_prs octokit owner repo state =
     try_catch
       (await (request (pulls_list octokit) (GET_pulls owner repo (filter_word state))) (\<lambda>data.
        return_io (text_result
          (capitalize (filter_word state) @ '' PRs for '' @ owner @ ''/'' @ repo @ '':\<newline>\<newline>'' @
           JSON_stringify (JArray (map pr_listing data))))))
       (\<lambda>error. return_io (error_result (''Error fetching PRs: '' @ err_message error)))"

subsection \<open>comment-on-pr, request-reviewers, merge-pr\<close>

definition comment_on_pr :: "octokit \<Rightarrow> string \<Rightarrow> string \<Rightarrow> int \<Rightarrow> string \<Rightarrow> envelope io" where
  "comment_on_pr octokit owner repo prNumber comment =
     try_catch
       (await (request (issues_create_comment octokit) (POST_issue_comments owner repo prNumber comment)) (\<lambda>response.
        return_io (text_result
          (check_mark @ '' Comment posted on PR #'' @ show_int prNumber @ '': '' @ [CHR 0x22] @
           substring0 comment 50 @ (if length comment > 50 then ''...'' else []) @ [CHR 0x22]))))
       (\<lambda>error. return_io (error_result (''Error posting comment: '' @ err_message error)))"

definition request_reviewers :: "octokit \<Rightarrow> string \<Rightarrow> string \<Rightarrow> int \<Rightarrow> string list \<Rightarrow> envelope io" where
  "request_reviewers octokit owner repo prNumber reviewers =
     try_catch
       (await (request (pulls_request_reviewers octokit)
                 (POST_requested_reviewers owner repo prNumber reviewers)) (\<lambda>response.
        return_io (text_result
          (check_mark @ '' Requested '' @ show_nat (length reviewers) @ '' reviewer(s) for PR #'' @
           show_int prNumber @ '': '' @ join '', '' reviewers))))
       (\<lambda>error. return_io (error_result (''Error requesting reviewers: '' @ err_message error)))"

definition merge_pr ::
  "octokit \<Rightarrow> string \<Rightarrow> string \<Rightarrow> int \<Rightarrow> string option \<Rightarrow> string option \<Rightarrow> envelope io" where
  "merge_pr octokit owner repo prNumber commitTitle commitMessage =
     try_catch
       (await (request (pulls_get octokit) (GET_pull owner repo prNumber)) (\<lambda>prResponse.
        if pr_mergeable prResponse \<noteq> Some True
        then return_io (text_result
               (warning_sign @ '' PR #'' @ show_int prNumber @
                '' is not mergeable. It may have conflicts that need to be resolved.''))
        else
          await (request (pulls_merge octokit)
                   (PUT_merge owner repo prNumber commitTitle commitMessage ''merge'')) (\<lambda>mergeResponse.
          return_io (text_result
            (check_mark @ '' Successfully merged PR #'' @ show_int prNumber @ ''!'')))))
       (\<lambda>error. return_io (error_result (''Error merging PR: '' @ err_message error)))"

subsection \<open>summarize-pr\<close>

record summary =
  summary_title :: string
  summary_description :: string
  changedFiles :: nat
  totalAdditions :: int
  totalDeletions :: int
  summary_files :: "pull_file list"

definition fileChanges :: "pull_file list \<Rightarrow> pull_file list" where
  "fileChanges files =
     map (\<lambda>file. file\<lparr>file_patch := map_option (\<lambda>p. substring0 p 500) (file_patch file)\<rparr>) files"

definition make_summary :: "pull \<Rightarrow> pull_file list \<Rightarrow> summary" where
  "make_summary pr files =
     \<lparr>summary_title = pr_title pr,
      summary_description = or_else (pr_body pr) ''No description provided'',
      changedFiles = length files,
      totalAdditions = foldl (\<lambda>sum file. sum + file_additions file) 0 files,
      totalDeletions = foldl (\<lambda>sum file. sum + file_deletions file) 0 files,
      summary_files = fileChanges files\<rparr>"

definition file_section :: "pull_file \<Rightarrow> string" where
  "file_section file =
     ''- **'' @ file_filename file @ ''** ('' @ file_status file @ ''): +'' @
     show_int (file_additions file) @ '' -'' @ show_int (file_deletions file) @ ''\<newline>'' @
     (if truthy_string (file_patch file)
      then ''```diff\<newline>'' @ substring0 (or_else (file_patch file) []) 300 @
           (if length (or_else (file_patch file) []) > 300 then ''...'' else []) @
           ''\<newline>```\<newline>''
      else [])"

definition summary_text :: "int \<Rightarrow> summary \<Rightarrow> pull_file list \<Rightarrow> string" where
  "summary_text prNumber summary files =
     ''# PR #'' @ show_int prNumber @ '' Summary\<newline>\<newline>'' @
     ''**Title**: '' @ summary_title summary @ ''\<newline>\<newline>'' @
     ''**Description**:\<newline>'' @ summary_description summary @ ''\<newline>\<newline>'' @
     ''**Changes**: '' @ show_nat (changedFiles summary) @ '' files changed, '' @
     show_int (totalAdditions summary) @ '' additions, '' @
     show_int (totalDeletions summary) @ '' deletions\<newline>\<newline>'' @
     ''## Modified Files\<newline>\<newline>'' @
     join ''\<newline>\<newline>'' (map file_section files)"

definition summarize_pr :: "octokit \<Rightarrow> string \<Rightarrow> string \<Rightarrow> int \<Rightarrow> envelope io" where
  "summarize_pr octokit owner repo prNumber =
     try_catch
       (await (request (pulls_get octokit) (GET_pull owner repo prNumber)) (\<lambda>pr.
        await (request (pulls_list_files octokit) (GET_pull_files owner repo prNumber)) (\<lambda>files.
        return_io (text_result (summary_text prNumber (make_summary pr files) files)))))
       (\<lambda>error. return_io (error_result (''Error summarizing PR: '' @ err_message error)))"

subsection \<open>close-pr\<close>

definition close_pr :: "octokit \<Rightarrow> string \<Rightarrow> string \<Rightarrow> int \<Rightarrow> string option \<Rightarrow> envelope io" where
  "close_pr octokit owner repo prNumber reason =
     try_catch
       (await (request (pulls_get octokit) (GET_pull owner repo prNumber)) (\<lambda>prResponse.
        if pr_state prResponse \<noteq> ''open''
        then return_io (text_result
               (''PR #'' @ show_int prNumber @ '' is already '' @ pr_state prResponse @ ''. No action taken.''))
        else
          await (request (issues_update octokit) (PATCH_issue owner repo prNumber ''closed'')) (\<lambda>u.
          await (if truthy_string reason
                 then request (issues_create_comment octokit)
                        (POST_issue_comments owner repo prNumber (''Closing this PR: '' @ or_else reason []))
                 else return_io ()) (\<lambda>u.
          return_io (text_result
            (check_mark @ '' PR #'' @ show_int prNumber @ '' has been closed'' @
             (if truthy_string reason then '' with reason: '' @ or_else reason [] else []) @ ''.''))))))
       (\<lambda>error. return_io (error_result (''Error closing PR: '' @ err_message error)))"

subsection \<open>create-repository\<close>

definition created_text :: "string \<Rightarrow> string \<Rightarrow> bool \<Rightarrow> repo_data \<Rightarrow> string" where
  "created_text name repoOwner isPrivate repoData =
     check_mark @ '' Repository created successfully!\<newline>\<newline>Name: '' @ name @
     ''\<newline>Owner: '' @ repoOwner @
     ''\<newline>Visibility: '' @ (if isPrivate then ''Private'' else ''Public'') @
     ''\<newline>URL: '' @ repo_html_url repoData"

definition no_files :: "repository_file list option \<Rightarrow> bool" where
  "no_files files = (case files of None \<Rightarrow> True | Some fs \<Rightarrow> length fs = 0)"

definition create_repository ::
  "octokit \<Rightarrow> string option \<Rightarrow> string \<Rightarrow> string option \<Rightarrow> bool \<Rightarrow>
   repository_file list option \<Rightarrow> bool \<Rightarrow> envelope io" where
  "create_repository octokit owner name description isPrivate files initializeWithReadme =
     try_catch
       (let createParams =
              \<lparr>cp_name = name, cp_description = or_else description [],
               cp_private = isPrivate, cp_auto_init = initializeWithReadme\<rparr>
        in
        await (if \<not> truthy_string owner
               then request (repos_create octokit) (POST_user_repos createParams)
               else request (repos_create octokit) (POST_orgs_repos (or_else owner []) createParams))
        (\<lambda>repoData.
        let repoOwner = repo_owner_login repoData;
            repo = repo_name repoData;
            defaultBranch = repo_default_branch repoData
        in
        if no_files files \<and> initializeWithReadme
        then return_io (text_result
               (created_text name repoOwner isPrivate repoData @ ''\<newline>\<newline>Initialized with README.md''))
        else
          (case files of
             Some fs \<Rightarrow>
               if length fs > 0
               then
                 await (request (git_get_ref octokit)
                          (GET_git_ref repoOwner repo (''heads/'' @ defaultBranch))) (\<lambda>latestCommitSha.
                 await (promise_all
                          (map (\<lambda>file. request (git_create_blob octokit)
                                  (POST_git_blobs repoOwner repo (base64 (rf_content file)) ''base64'')) fs))
                 (\<lambda>blobResults.
                 await (request (git_get_tree octokit)
                          (GET_git_trees repoOwner repo latestCommitSha ''true'')) (\<lambda>treeSha.
                 let treeItems =
                       map (\<lambda>(file, sha). \<lparr>ti_path = rf_path file, ti_mode = ''100644'',
                                           ti_type = ''blob'', ti_sha = sha\<rparr>) (zip fs blobResults)
                 in
                 await (request (git_create_tree octokit)
                          (POST_git_trees repoOwner repo treeSha treeItems)) (\<lambda>newTreeSha.
                 await (request (git_create_commit octokit)
                          (POST_git_commits repoOwner repo ''Add initial files'' newTreeSha [latestCommitSha]))
                 (\<lambda>commitSha.
                 await (request (git_update_ref octokit)
                          (PATCH_git_refs repoOwner repo (''heads/'' @ defaultBranch) commitSha)) (\<lambda>u.
                 return_io (text_result
                   (created_text name repoOwner isPrivate repoData @
                    ''\<newline>\<newline>Added '' @ show_nat (length fs) @ '' files:\<newline>'' @
                    join ''\<newline>'' (map (\<lambda>f. ''- '' @ rf_path f) fs)))))))))
               else return_io (text_result (created_text name repoOwner isPrivate repoData))
           | None \<Rightarrow> return_io (text_result (created_text name repoOwner isPrivate repoData)))))
       (\<lambda>error. return_io (error_result (''Error creating repository: '' @ err_message error)))"

subsection \<open>delete-repository\<close>

definition delete_error_message :: "string \<Rightarrow> string \<Rightarrow> api_error \<Rightarrow> string" where
  "delete_error_message owner repo error =
     (if err_status error = Some 403
      then ''You don'' @ [CHR 0x27] @ ''t have permission to delete the repository '' @ owner @ ''/'' @ repo @
           ''. Make sure your GitHub token has the necessary permissions.''
      else if err_status error = Some 404
      then ''Repository '' @ owner @ ''/'' @ repo @
           '' not found. It may have already been deleted or you might not have access to it.''
      else if err_status error = Some 401
      then ''Authentication failed. Check your GitHub token.''
      else ''Error deleting repository: '' @ err_message error)"

text \<open>
  The existence probe has a \<^verbatim>\<open>try\<close> of its own: its \<^verbatim>\<open>catch\<close> returns from the
  handler on status 404 and throws the error again otherwise.
\<close>

definition delete_repository :: "octokit \<Rightarrow> string \<Rightarrow> string \<Rightarrow> bool \<Rightarrow> envelope io" where
  "delete_repository octokit owner repo confirmation =
     try_catch
       (if \<not> confirmation
        then return_io (text_result
               (warning_sign @ '' Repository deletion aborted. The '' @ [CHR 0x27] @ ''confirmation'' @
                [CHR 0x27] @ '' parameter must be set to true to proceed with deletion.''))
        else
          (\<lambda>tr. case request (repos_get octokit) (GET_repo owner repo) tr of
             (Inl error, tr') \<Rightarrow>
               if err_status error = Some 404
               then return_io
                      \<lparr>content = [TextContent (warning_sign @ '' Repository '' @ owner @ ''/'' @ repo @
                          '' does not exist or you don'' @ [CHR 0x27] @ ''t have access to it.'')],
                       isError = Some True\<rparr> tr'
               else throw_io error tr'
           | (Inr u, tr') \<Rightarrow>
               await (request (repos_delete octokit) (DELETE_repo owner repo)) (\<lambda>u.
               return_io (text_result
                 (wastebasket @ '' Repository '' @ owner @ ''/'' @ repo @
                  '' has been successfully deleted.''))) tr'))
       (\<lambda>error. return_io (error_result (delete_error_message owner repo error)))"

section \<open>Tool invocations\<close>

text \<open>
  An invocation is a tool name with its arguments after schema validation, defaults
  filled in. \<^verbatim>\<open>invoke\<close> runs the handler registered under that name.
\<close>

datatype tool_invocation =
    Discuss_pr string string "int option" "string option"
  | List_prs string string pr_filter
  | Comment_on_pr string string int string
  | Request_reviewers string string int "string list"
  | Merge_pr string string int "string option" "string option"
  | Summarize_pr string string int
  | Close_pr string string int "string option"
  | Create_repository "string option" string "string option" bool "repository_file list option" bool
  | Delete_repository string string bool

fun invoke :: "octokit \<Rightarrow> tool_invocation \<Rightarrow> envelope io" where
  "invoke octokit (Discuss_pr owner repo prNumber query) = discuss_pr octokit owner repo prNumber query"
| "invoke octokit (List_prs owner repo state) = list_prs octokit owner repo state"
| "invoke octokit (Comment_on_pr owner repo prNumber comment) = comment_on_pr octokit owner repo prNumber comment"
| "invoke octokit (Request_reviewers owner repo prNumber reviewers) =
     request_reviewers octokit owner repo prNumber reviewers"
| "invoke octokit (Merge_pr owner repo prNumber commitTitle commitMessage) =
     merge_pr octokit owner repo prNumber commitTitle commitMessage"
| "invoke octokit (Summarize_pr owner repo prNumber) = summarize_pr octokit owner repo prNumber"
| "invoke octokit (Close_pr owner repo prNumber reason) = close_pr octokit owner repo prNumber reason"
| "invoke octokit (Create_repository owner name description isPrivate files initializeWithReadme) =
     create_repository octokit owner name description isPrivate files initializeWithReadme"
| "invoke octokit (Delete_repository owner repo confirmation) = delete_repository octokit owner repo confirmation"

text \<open>The envelope a computation ends with, and the calls it issued.\<close>

definition result_of :: "envelope io \<Rightarrow> envelope option" where
  "result_of m = (case fst (m []) of Inl e \<Rightarrow> None | Inr env \<Rightarrow> Some env)"

definition calls_of :: "'a io \<Rightarrow> call list" where
  "calls_of m = snd (m [])"

section \<open>Vocabulary of the call-order properties\<close>

text \<open>The merge call, whatever its parameters.\<close>

definition is_merge_call :: "call \<Rightarrow> bool" where
  "is_merge_call c = (case c of PUT_merge owner repo n t m method \<Rightarrow> True | _ \<Rightarrow> False)"

text \<open>
  The call that creates the repository: the user route when no owner is given, the
  organisation route otherwise, as in the first branch of create-repository.
\<close>

definition create_call :: "string option \<Rightarrow> create_params \<Rightarrow> call" where
  "create_call owner createParams =
     (if \<not> truthy_string owner then POST_user_repos createParams
      else POST_orgs_repos (or_else owner []) createParams)"

text \<open>
  The steps of repository creation, and the step a call belongs to. The stages of the
  workflow for \<open>n\<close> files are listed in order; the blob stage holds \<open>n\<close> calls.
\<close>

datatype workflow_step =
  CreateRepo | FetchDefaultRef | CreateBlob | FetchBaseTree | CreateTree | CreateCommit | UpdateRef
  | OutsideWorkflow

fun step_of :: "call \<Rightarrow> workflow_step" where
  "step_of (POST_user_repos p) = CreateRepo"
| "step_of (POST_orgs_repos org p) = CreateRepo"
| "step_of (GET_git_ref owner repo ref) = FetchDefaultRef"
| "step_of (POST_git_blobs owner repo c enc) = CreateBlob"
| "step_of (GET_git_trees owner repo sha recursive) = FetchBaseTree"
| "step_of (POST_git_trees owner repo base items) = CreateTree"
| "step_of (POST_git_commits owner repo msg tree parents) = CreateCommit"
| "step_of (PATCH_git_refs owner repo ref sha) = UpdateRef"
| "step_of c = OutsideWorkflow"

definition workflow_stages :: "nat \<Rightarrow> workflow_step list list" where
  "workflow_stages n =
     [[CreateRepo], [FetchDefaultRef], replicate n CreateBlob, [FetchBaseTree],
      [CreateTree], [CreateCommit], [UpdateRef]]"

text \<open>The calls of the first \<open>k\<close> stages.\<close>

definition stages_upto :: "nat \<Rightarrow> nat \<Rightarrow> workflow_step list" where
  "stages_upto n k = concat (take k (workflow_stages n))"

text \<open>
  Whether the client rejects a call, given the calls made before it: the call is handed
  to the route that serves it.
\<close>

fun rejected :: "octokit \<Rightarrow> call list \<Rightarrow> call \<Rightarrow> bool" where
  "rejected octokit tr (GET_pulls owner repo state) = isl (pulls_list octokit tr (GET_pulls owner repo state))"
| "rejected octokit tr (GET_pull owner repo n) = isl (pulls_get octokit tr (GET_pull owner repo n))"
| "rejected octokit tr (POST_issue_comments owner repo n body) =
     isl (issues_create_comment octokit tr (POST_issue_comments owner repo n body))"
| "rejected octokit tr (POST_requested_reviewers owner repo n reviewers) =
     isl (pulls_request_reviewers octokit tr (POST_requested_reviewers owner repo n reviewers))"
| "rejected octokit tr (PUT_merge owner repo n t m method) =
     isl (pulls_merge octokit tr (PUT_merge owner repo n t m method))"
| "rejected octokit tr (GET_pull_files owner repo n) =
     isl (pulls_list_files octokit tr (GET_pull_files owner repo n))"
| "rejected octokit tr (PATCH_issue owner repo n state) =
     isl (issues_update octokit tr (PATCH_issue owner repo n state))"
| "rejected octokit tr (POST_user_repos p) = isl (repos_create octokit tr (POST_user_repos p))"
| "rejected octokit tr (POST_orgs_repos org p) = isl (repos_create octokit tr (POST_orgs_repos org p))"
| "rejected octokit tr (GET_git_ref owner repo ref) =
     isl (git_get_ref octokit tr (GET_git_ref owner repo ref))"
| "rejected octokit tr (POST_git_blobs owner repo c enc) =
     isl (git_create_blob octokit tr (POST_git_blobs owner repo c enc))"
| "rejected octokit tr (GET_git_trees owner repo sha recursive) =
     isl (git_get_tree octokit tr (GET_git_trees owner repo sha recursive))"
| "rejected octokit tr (POST_git_trees owner repo base items) =
     isl (git_create_tree octokit tr (POST_git_trees owner repo base items))"
| "rejected octokit tr (POST_git_commits owner repo msg tree parents) =
     isl (git_create_commit octokit tr (POST_git_commits owner repo msg tree parents))"
| "rejected octokit tr (PATCH_git_refs owner repo ref sha) =
     isl (git_update_ref octokit tr (PATCH_git_refs owner repo ref sha))"
| "rejected octokit tr (GET_repo owner repo) = isl (repos_get octokit tr (GET_repo owner repo))"
| "rejected octokit tr (DELETE_repo owner repo) = isl (repos_delete octokit tr (DELETE_repo owner repo))"

text \<open>
  Every call of a run was answered: no call of the list is rejected, each one taken with
  the calls before it as its history.
\<close>

fun answered_from :: "octokit \<Rightarrow> call list \<Rightarrow> call list \<Rightarrow> bool" where
  "answered_from octokit tr [] = True"
| "answered_from octokit tr (c # cs) = (\<not> rejected octokit tr c \<and> answered_from octokit (tr @ [c]) cs)"

definition all_answered :: "octokit \<Rightarrow> call list \<Rightarrow> bool" where
  "all_answered octokit cs = answered_from octokit [] cs"

section \<open>Sample forges\<close>

text \<open>Concrete clients on which the theorems below are instantiated.\<close>

definition sample_pull :: pull where
  "sample_pull =
     \<lparr>pr_number = 7, pr_title = ''Fix typo'', pr_body = None,
      pr_html_url = ''https://forge.test/o/r/pull/7'', pr_state = ''open'',
      pr_created_at = ''2024-01-01T00:00:00Z'', pr_user_login = Some ''alice'',
      pr_mergeable = Some True\<rparr>"

definition sample_files :: "pull_file list" where
  "sample_files =
     [\<lparr>file_filename = ''a.txt'', file_status = ''modified'', file_additions = 3,
       file_deletions = 1, file_changes = 4, file_patch = None\<rparr>,
      \<lparr>file_filename = ''b.txt'', file_status = ''added'', file_additions = 5,
       file_deletions = 0, file_changes = 5, file_patch = None\<rparr>]"

definition sample_repo :: repo_data where
  "sample_repo =
     \<lparr>repo_owner_login = ''o'', repo_name = ''r'', repo_default_branch = ''main'',
      repo_html_url = ''https://forge.test/o/r''\<rparr>"

definition not_found :: api_error where
  "not_found = RequestError (Some 404) ''Not Found''"

definition forge_ok :: octokit where
  "forge_ok =
     \<lparr>pulls_list = (\<lambda>tr c. Inr [sample_pull]),
      pulls_get = (\<lambda>tr c. Inr sample_pull),
      issues_create_comment = (\<lambda>tr c. Inr ()),
      pulls_request_reviewers = (\<lambda>tr c. Inr ()),
      pulls_merge = (\<lambda>tr c. Inr ()),
      pulls_list_files = (\<lambda>tr c. Inr sample_files),
      issues_update = (\<lambda>tr c. Inr ()),
      repos_create = (\<lambda>tr c. Inr sample_repo),
      git_get_ref = (\<lambda>tr c. Inr ''c0''),
      git_create_blob = (\<lambda>tr c. Inr ''b0''),
      git_get_tree = (\<lambda>tr c. Inr ''t0''),
      git_create_tree = (\<lambda>tr c. Inr ''t1''),
      git_create_commit = (\<lambda>tr c. Inr ''c1''),
      git_update_ref = (\<lambda>tr c. Inr ()),
      repos_get = (\<lambda>tr c. Inr ()),
      repos_delete = (\<lambda>tr c. Inr ())\<rparr>"

definition forge_no_pulls :: octokit where
  "forge_no_pulls = forge_ok\<lparr>pulls_list := (\<lambda>tr c. Inr [])\<rparr>"

definition forge_pulls_unreachable :: octokit where
  "forge_pulls_unreachable = forge_ok\<lparr>pulls_list := (\<lambda>tr c. Inl not_found)\<rparr>"

definition forge_unmergeable :: octokit where
  "forge_unmergeable = forge_ok\<lparr>pulls_get := (\<lambda>tr c. Inr (sample_pull\<lparr>pr_mergeable := None\<rparr>))\<rparr>"

definition forge_closed_pull :: octokit where
  "forge_closed_pull = forge_ok\<lparr>pulls_get := (\<lambda>tr c. Inr (sample_pull\<lparr>pr_state := ''closed''\<rparr>))\<rparr>"

definition forge_no_repo :: octokit where
  "forge_no_repo = forge_ok\<lparr>repos_get := (\<lambda>tr c. Inl not_found)\<rparr>"

definition two_files :: "repository_file list" where
  "two_files = [\<lparr>rf_path = ''a'', rf_content = ''foo''\<rparr>, \<lparr>rf_path = ''b'', rf_content = ''fo''\<rparr>]"

section \<open>Auxiliary facts\<close>

declare show_nat.simps [simp del]

lemmas io_defs = request_def return_io_def throw_io_def await_def try_catch_def

lemma await_request:
  "await (request route c) k tr =
     (case route tr c of Inl e \<Rightarrow> (Inl e, tr @ [c]) | Inr x \<Rightarrow> k x (tr @ [c]))"
  by (simp add: await_def request_def split: sum.splits)

lemma try_catch_return:
  "try_catch body (\<lambda>e. return_io (h e)) tr =
     (case body tr of (Inl e, tr') \<Rightarrow> (Inr (h e), tr') | (Inr x, tr') \<Rightarrow> (Inr x, tr'))"
  by (simp add: try_catch_def return_io_def split: prod.splits sum.splits)

text \<open>The parallel step logs one call per element, in list order, whatever the answers.\<close>

lemma promise_all_requests_calls:
  "snd (promise_all (map (\<lambda>x. request route (f x)) xs) tr) = tr @ map f xs"
proof (induction xs arbitrary: tr)
  case Nil
  show ?case by simp
next
  case (Cons x xs)
  have head: "request route (f x) tr = (route tr (f x), tr @ [f x])"
    by (simp add: request_def)
  have rest: "snd (promise_all (map (\<lambda>x. request route (f x)) xs) (tr @ [f x])) = (tr @ [f x]) @ map f xs"
    by (rule Cons.IH)
  show ?case
    using rest by (auto simp add: head split: prod.splits)
qed

lemma await_promise_all_requests:
  "await (promise_all (map (\<lambda>x. request route (f x)) xs)) k tr =
     (case fst (promise_all (map (\<lambda>x. request route (f x)) xs) tr) of
        Inl e \<Rightarrow> (Inl e, tr @ map f xs)
      | Inr ys \<Rightarrow> k ys (tr @ map f xs))"
proof (cases "promise_all (map (\<lambda>x. request route (f x)) xs) tr")
  case (Pair r tr')
  have "tr' = tr @ map f xs"
    using promise_all_requests_calls [of route f xs tr] Pair by simp
  with Pair show ?thesis
    by (simp add: await_def split: sum.splits)
qed

lemma await_return: "await (return_io x) k tr = k x tr"
  by (simp add: await_def return_io_def)

lemmas handler_unfold =
  await_request await_return try_catch_return return_io_def text_result_def error_result_def

text \<open>Renderings used when the theorems are instantiated on the sample forges.\<close>

lemma show_small:
  "show_int 7 = ''7''" "show_int 3 = ''3''" "show_int 5 = ''5''" "show_int 1 = ''1''"
  "show_int 0 = ''0''" "show_int 8 = ''8''" "show_nat 2 = ''2''"
  by (simp_all add: show_int_def show_nat.simps digit_char_def)

lemma capitalize_filter_word:
  "capitalize ''open'' = ''Open''"
  "capitalize ''closed'' = ''Closed''"
  "capitalize ''all'' = ''All''"
  by (simp_all add: capitalize_def toUpperCase_char_def)

lemma base64_samples: "base64 ''foo'' = ''Zm9v''" "base64 ''fo'' = ''Zm8=''"
  by (simp_all add: base64_def b64_char_def)

section \<open>delete-repository\<close>

text \<open>
  Claim C6. A delete-repository invocation with \<^verbatim>\<open>confirmation = false\<close> makes no remote
  call at all (the call log is returned as it was: neither the existence probe nor the
  delete endpoint is called) and returns the "deletion aborted" envelope, whose error flag
  is absent.
\<close>

theorem delete_repository_unconfirmed:
  "delete_repository octokit owner repo False tr =
     (Inr \<lparr>content = [TextContent (warning_sign @ '' Repository deletion aborted. The '' @ [CHR 0x27] @
              ''confirmation'' @ [CHR 0x27] @ '' parameter must be set to true to proceed with deletion.'')],
           isError = None\<rparr>, tr)"
  by (simp add: delete_repository_def io_defs text_result_def)

theorem delete_repository_unconfirmed_witness:
  "delete_repository forge_ok ''o'' ''r'' False [] =
     (Inr \<lparr>content = [TextContent (warning_sign @ '' Repository deletion aborted. The '' @ [CHR 0x27] @
              ''confirmation'' @ [CHR 0x27] @ '' parameter must be set to true to proceed with deletion.'')],
           isError = None\<rparr>, [])"
  by (rule delete_repository_unconfirmed)

text \<open>
  Claim C1 says that, with \<^verbatim>\<open>confirmation = true\<close> and an existence probe rejected with
  status 404, the "does not exist" envelope is not flagged as an error. On a forge whose
  probe answers 404 the handler returns that envelope with \<^verbatim>\<open>isError: true\<close>.
\<close>

theorem delete_repository_probe_404_flagged:
  "repos_get forge_no_repo [] (GET_repo ''o'' ''r'') = Inl (RequestError (Some 404) ''Not Found'') \<and>
   result_of (delete_repository forge_no_repo ''o'' ''r'' True) =
     Some \<lparr>content = [TextContent (warning_sign @ '' Repository o/r does not exist or you don'' @
                         [CHR 0x27] @ ''t have access to it.'')],
           isError = Some True\<rparr> \<and>
   \<not> (isError \<lparr>content = [TextContent (warning_sign @ '' Repository o/r does not exist or you don'' @
                         [CHR 0x27] @ ''t have access to it.'')],
           isError = Some True\<rparr> \<noteq> Some True)"
  by (simp add: delete_repository_def io_defs result_of_def forge_no_repo_def not_found_def)

text \<open>
  Claim C1, as amended. With \<^verbatim>\<open>confirmation = true\<close> and an existence probe rejected
  with status 404, the handler returns the "does not exist" envelope, flagged as an error,
  and the probe is the only call issued: the delete call is never made.
\<close>

theorem delete_repository_probe_404:
  assumes "repos_get octokit tr (GET_repo owner repo) = Inl error"
    and "err_status error = Some 404"
  shows "delete_repository octokit owner repo True tr =
     (Inr \<lparr>content = [TextContent (warning_sign @ '' Repository '' @ owner @ ''/'' @ repo @
                         '' does not exist or you don'' @ [CHR 0x27] @ ''t have access to it.'')],
           isError = Some True\<rparr>,
      tr @ [GET_repo owner repo])"
  using assms by (simp add: delete_repository_def io_defs)

theorem delete_repository_probe_404_witness:
  "repos_get forge_no_repo [] (GET_repo ''o'' ''r'') = Inl not_found \<and>
   err_status not_found = Some 404 \<and>
   delete_repository forge_no_repo ''o'' ''r'' True [] =
     (Inr \<lparr>content = [TextContent (warning_sign @ '' Repository o/r does not exist or you don'' @
                         [CHR 0x27] @ ''t have access to it.'')],
           isError = Some True\<rparr>,
      [GET_repo ''o'' ''r''])"
proof -
  have probe: "repos_get forge_no_repo [] (GET_repo ''o'' ''r'') = Inl not_found"
    by (simp add: forge_no_repo_def)
  have status: "err_status not_found = Some 404"
    by (simp add: not_found_def)
  show ?thesis
    using probe status delete_repository_probe_404 [OF probe status] by simp
qed

section \<open>list-prs and discuss-pr\<close>

text \<open>
  Claim C2 says that list-prs answers an empty list of pull requests with an explicit
  "no PRs" message rather than a rendering of the empty structure. On a forge with no
  pull requests the text is the usual heading followed by \<^verbatim>\<open>[]\<close>, which is what
  \<^verbatim>\<open>JSON.stringify\<close> makes of the empty array.
\<close>

theorem list_prs_empty_renders_brackets:
  "pulls_list forge_no_pulls [] (GET_pulls ''o'' ''r'' ''open'') = Inr [] \<and>
   result_of (list_prs forge_no_pulls ''o'' ''r'' StateOpen) =
     Some \<lparr>content = [TextContent ''Open PRs for o/r:\<newline>\<newline>[]''], isError = None\<rparr> \<and>
   JSON_stringify (JArray []) = ''[]''"
  by (simp add: list_prs_def io_defs result_of_def forge_no_pulls_def forge_ok_def text_result_def
      JSON_stringify_def capitalize_filter_word)

text \<open>
  Claim C2, as amended. When the forge returns an empty list of pull requests, list-prs
  returns an envelope that is not flagged as an error and whose single text block is the
  heading for the requested state followed by the rendering of the empty list, \<^verbatim>\<open>[]\<close>.
\<close>

theorem list_prs_empty:
  assumes "pulls_list octokit tr (GET_pulls owner repo (filter_word state)) = Inr []"
  shows "list_prs octokit owner repo state tr =
     (Inr \<lparr>content = [TextContent (capitalize (filter_word state) @ '' PRs for '' @ owner @ ''/'' @ repo @
                         '':\<newline>\<newline>'' @ JSON_stringify (JArray []))],
           isError = None\<rparr>,
      tr @ [GET_pulls owner repo (filter_word state)]) \<and>
     JSON_stringify (JArray []) = ''[]''"
  using assms by (simp add: list_prs_def io_defs text_result_def JSON_stringify_def)

theorem list_prs_empty_witness:
  "pulls_list forge_no_pulls [] (GET_pulls ''o'' ''r'' (filter_word StateClosed)) = Inr [] \<and>
   list_prs forge_no_pulls ''o'' ''r'' StateClosed [] =
     (Inr \<lparr>content = [TextContent ''Closed PRs for o/r:\<newline>\<newline>[]''], isError = None\<rparr>,
      [GET_pulls ''o'' ''r'' ''closed''])"
proof -
  have empty: "pulls_list forge_no_pulls [] (GET_pulls ''o'' ''r'' (filter_word StateClosed)) = Inr []"
    by (simp add: forge_no_pulls_def)
  show ?thesis
    using empty list_prs_empty [OF empty]
    by (simp add: capitalize_filter_word)
qed

text \<open>
  When the list request succeeds, discuss-pr without a number and list-prs with state
  open issue the same call and return the same envelope, whatever the query.
\<close>

lemma discuss_pr_browse_success:
  assumes "pulls_list octokit tr (GET_pulls owner repo ''open'') = Inr data"
  shows "discuss_pr octokit owner repo None query tr = list_prs octokit owner repo StateOpen tr"
  using assms
  by (simp add: discuss_pr_def list_prs_def io_defs capitalize_filter_word)

text \<open>
  Claim C8 says that discuss-pr without a number returns the same envelope as list-prs
  with state open, given the same answer of the forge. When the forge rejects the list
  request, the two envelopes are both flagged as errors but their texts differ:
  discuss-pr writes "Error fetching PR s: ..." where list-prs writes
  "Error fetching PRs: ...".
\<close>

theorem discuss_pr_browse_error_text:
  "pulls_list forge_pulls_unreachable [] (GET_pulls ''o'' ''r'' ''open'') =
     Inl (RequestError (Some 404) ''Not Found'') \<and>
   result_of (discuss_pr forge_pulls_unreachable ''o'' ''r'' None None) =
     Some \<lparr>content = [TextContent ''Error fetching PR s: Not Found''], isError = Some True\<rparr> \<and>
   result_of (list_prs forge_pulls_unreachable ''o'' ''r'' StateOpen) =
     Some \<lparr>content = [TextContent ''Error fetching PRs: Not Found''], isError = Some True\<rparr>"
  by (simp add: discuss_pr_def list_prs_def io_defs result_of_def forge_pulls_unreachable_def
      not_found_def error_result_def truthy_number_def)

section \<open>merge-pr\<close>

text \<open>
  Claim C3. If the pull request fetched before merging reports a mergeable flag other
  than true (false or unknown), the fetch is the only call and the "not mergeable"
  envelope is returned, not flagged as an error. If the flag is true the merge call
  follows the fetch. A merge call appears among the issued calls only when the fetch
  succeeded with the flag true.
\<close>

theorem merge_pr_gate:
  "(\<forall>pr. pulls_get octokit [] (GET_pull owner repo prNumber) = Inr pr \<longrightarrow> pr_mergeable pr \<noteq> Some True \<longrightarrow>
      result_of (merge_pr octokit owner repo prNumber commitTitle commitMessage) =
        Some \<lparr>content = [TextContent (warning_sign @ '' PR #'' @ show_int prNumber @
                 '' is not mergeable. It may have conflicts that need to be resolved.'')],
              isError = None\<rparr> \<and>
      calls_of (merge_pr octokit owner repo prNumber commitTitle commitMessage) =
        [GET_pull owner repo prNumber]) \<and>
   (\<forall>pr. pulls_get octokit [] (GET_pull owner repo prNumber) = Inr pr \<longrightarrow> pr_mergeable pr = Some True \<longrightarrow>
      calls_of (merge_pr octokit owner repo prNumber commitTitle commitMessage) =
        [GET_pull owner repo prNumber,
         PUT_merge owner repo prNumber commitTitle commitMessage ''merge'']) \<and>
   ((\<exists>c \<in> set (calls_of (merge_pr octokit owner repo prNumber commitTitle commitMessage)). is_merge_call c) \<longrightarrow>
      (\<exists>pr. pulls_get octokit [] (GET_pull owner repo prNumber) = Inr pr \<and> pr_mergeable pr = Some True))"
  by (auto simp add: merge_pr_def io_defs result_of_def calls_of_def text_result_def is_merge_call_def
      split: sum.splits if_splits)

theorem merge_pr_gate_witness:
  "pulls_get forge_unmergeable [] (GET_pull ''o'' ''r'' 7) = Inr (sample_pull\<lparr>pr_mergeable := None\<rparr>) \<and>
   pr_mergeable (sample_pull\<lparr>pr_mergeable := None\<rparr>) \<noteq> Some True \<and>
   result_of (merge_pr forge_unmergeable ''o'' ''r'' 7 None None) =
     Some \<lparr>content = [TextContent (warning_sign @
                         '' PR #7 is not mergeable. It may have conflicts that need to be resolved.'')],
           isError = None\<rparr> \<and>
   calls_of (merge_pr forge_unmergeable ''o'' ''r'' 7 None None) = [GET_pull ''o'' ''r'' 7] \<and>
   pulls_get forge_ok [] (GET_pull ''o'' ''r'' 7) = Inr sample_pull \<and>
   pr_mergeable sample_pull = Some True \<and>
   calls_of (merge_pr forge_ok ''o'' ''r'' 7 None None) =
     [GET_pull ''o'' ''r'' 7, PUT_merge ''o'' ''r'' 7 None None ''merge'']"
proof -
  have fetch: "pulls_get forge_unmergeable [] (GET_pull ''o'' ''r'' 7) = Inr (sample_pull\<lparr>pr_mergeable := None\<rparr>)"
    by (simp add: forge_unmergeable_def)
  have flag: "pr_mergeable (sample_pull\<lparr>pr_mergeable := None\<rparr>) \<noteq> Some True"
    by simp
  have fetch': "pulls_get forge_ok [] (GET_pull ''o'' ''r'' 7) = Inr sample_pull"
    by (simp add: forge_ok_def)
  have flag': "pr_mergeable sample_pull = Some True"
    by (simp add: sample_pull_def)
  show ?thesis
    using fetch flag fetch' flag'
      merge_pr_gate [of forge_unmergeable "''o''" "''r''" 7 None None]
      merge_pr_gate [of forge_ok "''o''" "''r''" 7 None None]
    by (simp add: show_small)
qed

section \<open>summarize-pr\<close>

lemma foldl_plus_sum_list:
  "foldl (\<lambda>sum file. sum + f file) a files = (a::int) + sum_list (map f files)"
  by (induction files arbitrary: a) simp_all

text \<open>
  Claim C9. The totals of the summary are the sums of the per-file additions and of the
  per-file deletions over the list of changed files returned by the forge, and the report
  prints these two sums. For additions 3 and 5 and deletions 1 and 0 the report reads
  "8 additions, 1 deletions" (the instance after the theorem).
\<close>

theorem summarize_pr_totals:
  "totalAdditions (make_summary pr files) = sum_list (map file_additions files) \<and>
   totalDeletions (make_summary pr files) = sum_list (map file_deletions files) \<and>
   (pulls_get octokit [] (GET_pull owner repo prNumber) = Inr pr \<longrightarrow>
    pulls_list_files octokit [GET_pull owner repo prNumber] (GET_pull_files owner repo prNumber) = Inr files \<longrightarrow>
    result_of (summarize_pr octokit owner repo prNumber) =
      Some \<lparr>content = [TextContent
              (''# PR #'' @ show_int prNumber @ '' Summary\<newline>\<newline>'' @
               ''**Title**: '' @ pr_title pr @ ''\<newline>\<newline>'' @
               ''**Description**:\<newline>'' @ or_else (pr_body pr) ''No description provided'' @ ''\<newline>\<newline>'' @
               ''**Changes**: '' @ show_nat (length files) @ '' files changed, '' @
               show_int (sum_list (map file_additions files)) @ '' additions, '' @
               show_int (sum_list (map file_deletions files)) @ '' deletions\<newline>\<newline>'' @
               ''## Modified Files\<newline>\<newline>'' @
               join ''\<newline>\<newline>'' (map file_section files))],
            isError = None\<rparr>)"
  by (simp add: make_summary_def foldl_plus_sum_list summarize_pr_def io_defs result_of_def
      text_result_def summary_text_def)

theorem summarize_pr_totals_witness:
  "map file_additions sample_files = [3, 5] \<and>
   map file_deletions sample_files = [1, 0] \<and>
   totalAdditions (make_summary sample_pull sample_files) = 8 \<and>
   totalDeletions (make_summary sample_pull sample_files) = 1 \<and>
   pulls_get forge_ok [] (GET_pull ''o'' ''r'' 7) = Inr sample_pull \<and>
   pulls_list_files forge_ok [GET_pull ''o'' ''r'' 7] (GET_pull_files ''o'' ''r'' 7) = Inr sample_files \<and>
   result_of (summarize_pr forge_ok ''o'' ''r'' 7) =
     Some \<lparr>content = [TextContent
             (''# PR #7 Summary\<newline>\<newline>**Title**: Fix typo\<newline>\<newline>'' @
              ''**Description**:\<newline>No description provided\<newline>\<newline>'' @
              ''**Changes**: 2 files changed, 8 additions, 1 deletions\<newline>\<newline>'' @
              ''## Modified Files\<newline>\<newline>'' @
              ''- **a.txt** (modified): +3 -1\<newline>\<newline>\<newline>- **b.txt** (added): +5 -0\<newline>'')],
           isError = None\<rparr>"
proof -
  have pr: "pulls_get forge_ok [] (GET_pull ''o'' ''r'' 7) = Inr sample_pull"
    by (simp add: forge_ok_def)
  have files: "pulls_list_files forge_ok [GET_pull ''o'' ''r'' 7] (GET_pull_files ''o'' ''r'' 7) = Inr sample_files"
    by (simp add: forge_ok_def)
  have adds: "map file_additions sample_files = [3, 5]"
    and dels: "map file_deletions sample_files = [1, 0]"
    by (simp_all add: sample_files_def)
  have sections: "map file_section sample_files =
      [''- **a.txt** (modified): +3 -1\<newline>'', ''- **b.txt** (added): +5 -0\<newline>'']"
    by (simp add: sample_files_def file_section_def show_small truthy_string_def)
  have facts: "pr_title sample_pull = ''Fix typo''" "pr_body sample_pull = None"
    "length sample_files = 2"
    by (simp_all add: sample_pull_def sample_files_def)
  show ?thesis
    using pr files summarize_pr_totals [of sample_pull sample_files forge_ok "''o''" "''r''" 7]
    by (simp add: adds dels sections facts show_small or_else_def)
qed

section \<open>close-pr\<close>

text \<open>
  Claim C5 says that, when the pull request is open, a reason is supplied and the state
  update succeeds, exactly one comment is created after the update. A reason supplied as
  the empty string is treated as no reason: on the sample forge the calls are the fetch
  and the state update only.
\<close>

theorem close_pr_empty_reason_no_comment:
  "pulls_get forge_ok [] (GET_pull ''o'' ''r'' 7) = Inr sample_pull \<and>
   pr_state sample_pull = ''open'' \<and>
   issues_update forge_ok [GET_pull ''o'' ''r'' 7] (PATCH_issue ''o'' ''r'' 7 ''closed'') = Inr () \<and>
   calls_of (close_pr forge_ok ''o'' ''r'' 7 (Some [])) =
     [GET_pull ''o'' ''r'' 7, PATCH_issue ''o'' ''r'' 7 ''closed'']"
  by (simp add: close_pr_def io_defs calls_of_def forge_ok_def sample_pull_def truthy_string_def)

text \<open>
  Claim C5, as amended. If the fetched state of the pull request is not open, the fetch
  is the only call (no state update is issued) and the envelope names the current state
  and says that nothing was done; it is not flagged as an error. If the state is open, a
  non-empty reason is supplied and the state update succeeds, the calls are the fetch, the
  state update and then exactly one comment creation carrying the reason.
\<close>

theorem close_pr_workflow:
  "(\<forall>pr. pulls_get octokit [] (GET_pull owner repo prNumber) = Inr pr \<longrightarrow> pr_state pr \<noteq> ''open'' \<longrightarrow>
      result_of (close_pr octokit owner repo prNumber reason) =
        Some \<lparr>content = [TextContent (''PR #'' @ show_int prNumber @ '' is already '' @ pr_state pr @
                            ''. No action taken.'')],
              isError = None\<rparr> \<and>
      calls_of (close_pr octokit owner repo prNumber reason) = [GET_pull owner repo prNumber]) \<and>
   (\<forall>pr r. pulls_get octokit [] (GET_pull owner repo prNumber) = Inr pr \<longrightarrow> pr_state pr = ''open'' \<longrightarrow>
      reason = Some r \<longrightarrow> r \<noteq> [] \<longrightarrow>
      issues_update octokit [GET_pull owner repo prNumber] (PATCH_issue owner repo prNumber ''closed'') = Inr () \<longrightarrow>
      calls_of (close_pr octokit owner repo prNumber reason) =
        [GET_pull owner repo prNumber, PATCH_issue owner repo prNumber ''closed'',
         POST_issue_comments owner repo prNumber (''Closing this PR: '' @ r)])"
  by (auto simp add: close_pr_def io_defs result_of_def calls_of_def text_result_def truthy_string_def
      or_else_def split: sum.splits)

theorem close_pr_workflow_witness:
  "pulls_get forge_closed_pull [] (GET_pull ''o'' ''r'' 7) = Inr (sample_pull\<lparr>pr_state := ''closed''\<rparr>) \<and>
   pr_state (sample_pull\<lparr>pr_state := ''closed''\<rparr>) \<noteq> ''open'' \<and>
   result_of (close_pr forge_closed_pull ''o'' ''r'' 7 (Some ''stale'')) =
     Some \<lparr>content = [TextContent ''PR #7 is already closed. No action taken.''], isError = None\<rparr> \<and>
   calls_of (close_pr forge_closed_pull ''o'' ''r'' 7 (Some ''stale'')) = [GET_pull ''o'' ''r'' 7] \<and>
   pulls_get forge_ok [] (GET_pull ''o'' ''r'' 7) = Inr sample_pull \<and>
   pr_state sample_pull = ''open'' \<and>
   issues_update forge_ok [GET_pull ''o'' ''r'' 7] (PATCH_issue ''o'' ''r'' 7 ''closed'') = Inr () \<and>
   calls_of (close_pr forge_ok ''o'' ''r'' 7 (Some ''stale'')) =
     [GET_pull ''o'' ''r'' 7, PATCH_issue ''o'' ''r'' 7 ''closed'',
      POST_issue_comments ''o'' ''r'' 7 ''Closing this PR: stale'']"
proof -
  have closed: "pulls_get forge_closed_pull [] (GET_pull ''o'' ''r'' 7) = Inr (sample_pull\<lparr>pr_state := ''closed''\<rparr>)"
    by (simp add: forge_closed_pull_def)
  have opened: "pulls_get forge_ok [] (GET_pull ''o'' ''r'' 7) = Inr sample_pull"
    by (simp add: forge_ok_def)
  have state: "pr_state sample_pull = ''open''"
    by (simp add: sample_pull_def)
  have patch: "issues_update forge_ok [GET_pull ''o'' ''r'' 7] (PATCH_issue ''o'' ''r'' 7 ''closed'') = Inr ()"
    by (simp add: forge_ok_def)
  show ?thesis
    using closed opened state patch
      close_pr_workflow [of forge_closed_pull "''o''" "''r''" 7 "Some ''stale''"]
      close_pr_workflow [of forge_ok "''o''" "''r''" 7 "Some ''stale''"]
    by (simp add: show_small)
qed

section \<open>create-repository\<close>

lemma request_create_call:
  "(if \<not> truthy_string owner then request route (POST_user_repos p)
    else request route (POST_orgs_repos (or_else owner []) p)) = request route (create_call owner p)"
  by (simp add: create_call_def)

lemma step_of_create_call: "step_of (create_call owner p) = CreateRepo"
  by (simp add: create_call_def)

lemma stages_upto_simps:
  "stages_upto n (Suc 0) = [CreateRepo]"
  "stages_upto n 2 = [CreateRepo, FetchDefaultRef]"
  "stages_upto n 3 = [CreateRepo, FetchDefaultRef] @ replicate n CreateBlob"
  "stages_upto n 4 = [CreateRepo, FetchDefaultRef] @ replicate n CreateBlob @ [FetchBaseTree]"
  "stages_upto n 5 = [CreateRepo, FetchDefaultRef] @ replicate n CreateBlob @ [FetchBaseTree, CreateTree]"
  "stages_upto n 6 =
     [CreateRepo, FetchDefaultRef] @ replicate n CreateBlob @ [FetchBaseTree, CreateTree, CreateCommit]"
  "stages_upto n 7 =
     [CreateRepo, FetchDefaultRef] @ replicate n CreateBlob @
     [FetchBaseTree, CreateTree, CreateCommit, UpdateRef]"
  by (simp_all add: stages_upto_def workflow_stages_def)

lemma stages_upto_all: "concat (workflow_stages n) = stages_upto n 7"
  by (simp add: stages_upto_def workflow_stages_def)

lemma bex_1_7:
  "(\<exists>k\<in>{1..7::nat}. P k) = (P 1 \<or> P 2 \<or> P 3 \<or> P 4 \<or> P 5 \<or> P 6 \<or> P 7)"
proof -
  have "{1..7::nat} = {1, 2, 3, 4, 5, 6, 7}"
    by auto
  then show ?thesis
    by simp
qed

lemmas create_repository_unfold =
  create_repository_def request_create_call await_request await_promise_all_requests try_catch_return
  return_io_def Let_def calls_of_def result_of_def text_result_def error_result_def

text \<open>A complete run on the sample forge, with two files.\<close>

lemma create_repository_two_files_run:
  "create_repository forge_ok None ''r'' None False (Some two_files) True [] =
     (Inr \<lparr>content = [TextContent
              (check_mark @ '' Repository created successfully!\<newline>\<newline>Name: r\<newline>Owner: o'' @
               ''\<newline>Visibility: Public\<newline>URL: https://forge.test/o/r'' @
               ''\<newline>\<newline>Added 2 files:\<newline>- a\<newline>- b'')],
            isError = None\<rparr>,
      [POST_user_repos \<lparr>cp_name = ''r'', cp_description = [], cp_private = False, cp_auto_init = True\<rparr>,
       GET_git_ref ''o'' ''r'' ''heads/main'',
       POST_git_blobs ''o'' ''r'' ''Zm9v'' ''base64'',
       POST_git_blobs ''o'' ''r'' ''Zm8='' ''base64'',
       GET_git_trees ''o'' ''r'' ''c0'' ''true'',
       POST_git_trees ''o'' ''r'' ''t0''
         [\<lparr>ti_path = ''a'', ti_mode = ''100644'', ti_type = ''blob'', ti_sha = ''b0''\<rparr>,
          \<lparr>ti_path = ''b'', ti_mode = ''100644'', ti_type = ''blob'', ti_sha = ''b0''\<rparr>],
       POST_git_commits ''o'' ''r'' ''Add initial files'' ''t1'' [''c0''],
       PATCH_git_refs ''o'' ''r'' ''heads/main'' ''c1''])"
  by (simp add: create_repository_def io_defs Let_def text_result_def forge_ok_def sample_repo_def
      two_files_def no_files_def truthy_string_def or_else_def created_text_def base64_samples
      show_nat.simps digit_char_def)

text \<open>A run in which every call was answered goes through all seven stages.\<close>

lemma answered_from_append:
  "answered_from octokit tr (xs @ ys) =
     (answered_from octokit tr xs \<and> answered_from octokit (tr @ xs) ys)"
  by (induction xs arbitrary: tr) auto

lemma rejected_create_call:
  "rejected octokit tr (create_call owner p) = isl (repos_create octokit tr (create_call owner p))"
  by (simp add: create_call_def)

lemma promise_all_blobs_answered:
  "isl (fst (promise_all
        (map (\<lambda>x. request (git_create_blob octokit) (POST_git_blobs ro r (g x) enc)) xs) tr)) =
   (\<not> answered_from octokit tr (map (\<lambda>x. POST_git_blobs ro r (g x) enc) xs))"
proof (induction xs arbitrary: tr)
  case Nil
  show ?case by simp
next
  case (Cons x xs)
  have head: "request (git_create_blob octokit) (POST_git_blobs ro r (g x) enc) tr =
      (git_create_blob octokit tr (POST_git_blobs ro r (g x) enc), tr @ [POST_git_blobs ro r (g x) enc])"
    by (simp add: request_def)
  show ?case
    using Cons.IH [of "tr @ [POST_git_blobs ro r (g x) enc]"]
    by (auto simp add: head split: prod.splits sum.splits)
qed

lemma blobs_rejected:
  "fst (promise_all
        (map (\<lambda>x. request (git_create_blob octokit) (POST_git_blobs ro r (g x) enc)) xs) tr) = Inl e \<Longrightarrow>
   \<not> answered_from octokit tr (map (\<lambda>x. POST_git_blobs ro r (g x) enc) xs)"
  using promise_all_blobs_answered [of octokit ro r g enc xs tr] by simp

lemma create_repository_progress:
  assumes files: "files = Some fs" and nonempty: "fs \<noteq> []"
    and answered: "all_answered octokit
      (calls_of (create_repository octokit owner name description isPrivate files initializeWithReadme))"
  shows "map step_of
      (calls_of (create_repository octokit owner name description isPrivate files initializeWithReadme)) =
      concat (workflow_stages (length fs)) \<and>
    (\<exists>env. result_of (create_repository octokit owner name description isPrivate files initializeWithReadme) =
       Some env \<and> isError env = None)"
  using assms
  by (auto simp add: create_repository_unfold no_files_def stages_upto_all stages_upto_simps
        map_replicate_const step_of_create_call o_def all_answered_def answered_from_append
        rejected_create_call dest: blobs_rejected split: sum.splits if_splits)

text \<open>
  Claim C4. With no files (absent or an empty list) and \<^verbatim>\<open>initializeWithReadme = true\<close>,
  exactly one call is issued, the call that creates the repository. With a non-empty list
  of files, the calls issued are, in this order, the calls of the first \<open>k\<close> stages of the
  workflow for some \<open>k\<close> from 1 to 7: create, fetch-ref, one blob-create per file,
  fetch-tree, create-tree, create-commit, update-ref (a rejected request ends the run
  after its stage). When the envelope returned is not flagged as an error, they are the
  calls of all seven stages. When every call issued was answered, they are the calls of
  all seven stages as well, and the envelope is not flagged as an error: the run never
  stops short of a stage whose predecessors were answered.
\<close>

theorem create_repository_call_order:
  "(no_files files \<longrightarrow> initializeWithReadme \<longrightarrow>
      calls_of (create_repository octokit owner name description isPrivate files initializeWithReadme) =
        [create_call owner \<lparr>cp_name = name, cp_description = or_else description [],
                            cp_private = isPrivate, cp_auto_init = True\<rparr>]) \<and>
   (\<forall>fs. files = Some fs \<longrightarrow> fs \<noteq> [] \<longrightarrow>
      (\<exists>k\<in>{1..7}.
         map step_of
           (calls_of (create_repository octokit owner name description isPrivate files initializeWithReadme)) =
         stages_upto (length fs) k) \<and>
      (\<forall>env. result_of (create_repository octokit owner name description isPrivate files initializeWithReadme) =
               Some env \<longrightarrow> isError env \<noteq> Some True \<longrightarrow>
         map step_of
           (calls_of (create_repository octokit owner name description isPrivate files initializeWithReadme)) =
         concat (workflow_stages (length fs))) \<and>
      (all_answered octokit
         (calls_of (create_repository octokit owner name description isPrivate files initializeWithReadme)) \<longrightarrow>
         map step_of
           (calls_of (create_repository octokit owner name description isPrivate files initializeWithReadme)) =
         concat (workflow_stages (length fs)) \<and>
         (\<exists>env. result_of
                  (create_repository octokit owner name description isPrivate files initializeWithReadme) =
                Some env \<and> isError env = None)))"
proof (intro conjI allI impI)
  assume "no_files files" and "initializeWithReadme"
  then show "calls_of (create_repository octokit owner name description isPrivate files initializeWithReadme) =
        [create_call owner \<lparr>cp_name = name, cp_description = or_else description [],
                            cp_private = isPrivate, cp_auto_init = True\<rparr>]"
    by (simp add: create_repository_unfold split: sum.splits)
next
  fix fs
  assume files: "files = Some fs" and nonempty: "fs \<noteq> []"
  then show "\<exists>k\<in>{1..7}.
         map step_of
           (calls_of (create_repository octokit owner name description isPrivate files initializeWithReadme)) =
         stages_upto (length fs) k"
    unfolding bex_1_7
    by (simp add: create_repository_unfold no_files_def stages_upto_simps map_replicate_const
        step_of_create_call o_def split: sum.splits)
next
  fix fs env
  assume files: "files = Some fs" and nonempty: "fs \<noteq> []"
    and "result_of (create_repository octokit owner name description isPrivate files initializeWithReadme) =
               Some env" and "isError env \<noteq> Some True"
  then show "map step_of
           (calls_of (create_repository octokit owner name description isPrivate files initializeWithReadme)) =
         concat (workflow_stages (length fs))"
    by (auto simp add: create_repository_unfold no_files_def stages_upto_all stages_upto_simps
        map_replicate_const step_of_create_call o_def split: sum.splits if_splits)
next
  fix fs
  assume files: "files = Some fs" and nonempty: "fs \<noteq> []"
    and answered: "all_answered octokit
      (calls_of (create_repository octokit owner name description isPrivate files initializeWithReadme))"
  from create_repository_progress [OF files nonempty answered]
  show "map step_of
           (calls_of (create_repository octokit owner name description isPrivate files initializeWithReadme)) =
         concat (workflow_stages (length fs))"
    by (rule conjunct1)
next
  fix fs
  assume files: "files = Some fs" and nonempty: "fs \<noteq> []"
    and answered: "all_answered octokit
      (calls_of (create_repository octokit owner name description isPrivate files initializeWithReadme))"
  from create_repository_progress [OF files nonempty answered]
  show "\<exists>env. result_of
                  (create_repository octokit owner name description isPrivate files initializeWithReadme) =
                Some env \<and> isError env = None"
    by (rule conjunct2)
qed

theorem create_repository_call_order_witness:
  "no_files None \<and>
   calls_of (create_repository forge_ok None ''r'' None False None True) =
     [POST_user_repos \<lparr>cp_name = ''r'', cp_description = [], cp_private = False, cp_auto_init = True\<rparr>] \<and>
   two_files \<noteq> [] \<and>
   all_answered forge_ok
     (calls_of (create_repository forge_ok None ''r'' None False (Some two_files) True)) \<and>
   result_of (create_repository forge_ok None ''r'' None False (Some two_files) True) =
     Some \<lparr>content = [TextContent
             (check_mark @ '' Repository created successfully!\<newline>\<newline>Name: r\<newline>Owner: o'' @
              ''\<newline>Visibility: Public\<newline>URL: https://forge.test/o/r'' @
              ''\<newline>\<newline>Added 2 files:\<newline>- a\<newline>- b'')],
           isError = None\<rparr> \<and>
   map step_of (calls_of (create_repository forge_ok None ''r'' None False (Some two_files) True)) =
     [CreateRepo, FetchDefaultRef, CreateBlob, CreateBlob, FetchBaseTree, CreateTree, CreateCommit,
      UpdateRef]"
proof -
  have none: "no_files None"
    by (simp add: no_files_def)
  have two: "two_files \<noteq> []" "length two_files = 2"
    by (simp_all add: two_files_def)
  have ok: "result_of (create_repository forge_ok None ''r'' None False (Some two_files) True) =
      Some \<lparr>content = [TextContent
              (check_mark @ '' Repository created successfully!\<newline>\<newline>Name: r\<newline>Owner: o'' @
               ''\<newline>Visibility: Public\<newline>URL: https://forge.test/o/r'' @
               ''\<newline>\<newline>Added 2 files:\<newline>- a\<newline>- b'')],
            isError = None\<rparr>"
    by (simp add: result_of_def create_repository_two_files_run)
  have answered: "all_answered forge_ok
      (calls_of (create_repository forge_ok None ''r'' None False (Some two_files) True))"
    unfolding calls_of_def create_repository_two_files_run
    by (simp add: all_answered_def forge_ok_def)
  have stages: "concat (workflow_stages 2) =
      [CreateRepo, FetchDefaultRef, CreateBlob, CreateBlob, FetchBaseTree, CreateTree, CreateCommit,
       UpdateRef]"
    by (simp add: workflow_stages_def numeral_2_eq_2)
  show ?thesis
    using none two ok answered
      create_repository_call_order [of None True forge_ok None "''r''" None False]
      create_repository_call_order [of "Some two_files" True forge_ok None "''r''" None False]
    by (simp add: stages create_call_def truthy_string_def or_else_def)
qed

text \<open>
  Claim C10. With an empty list of files and \<^verbatim>\<open>initializeWithReadme = false\<close>, exactly one
  call is issued, the call that creates the repository (no ref, blob, tree, commit or
  ref-update call), and, the repository being created, the handler returns the envelope
  that describes it, not flagged as an error. The same holds when the list is absent.
\<close>

theorem create_repository_no_files_no_readme:
  "no_files files \<longrightarrow>
     calls_of (create_repository octokit owner name description isPrivate files False) =
       [create_call owner \<lparr>cp_name = name, cp_description = or_else description [],
                           cp_private = isPrivate, cp_auto_init = False\<rparr>] \<and>
     (\<forall>repoData.
        repos_create octokit []
          (create_call owner \<lparr>cp_name = name, cp_description = or_else description [],
                              cp_private = isPrivate, cp_auto_init = False\<rparr>) = Inr repoData \<longrightarrow>
        result_of (create_repository octokit owner name description isPrivate files False) =
          Some \<lparr>content = [TextContent
                  (check_mark @ '' Repository created successfully!\<newline>\<newline>Name: '' @ name @
                   ''\<newline>Owner: '' @ repo_owner_login repoData @
                   ''\<newline>Visibility: '' @ (if isPrivate then ''Private'' else ''Public'') @
                   ''\<newline>URL: '' @ repo_html_url repoData)],
                isError = None\<rparr>)"
  by (auto simp add: create_repository_unfold no_files_def created_text_def
      split: sum.splits option.splits)

theorem create_repository_no_files_no_readme_witness:
  "no_files (Some []) \<and>
   calls_of (create_repository forge_ok (Some ''org'') ''r'' None True (Some []) False) =
     [POST_orgs_repos ''org''
        \<lparr>cp_name = ''r'', cp_description = [], cp_private = True, cp_auto_init = False\<rparr>] \<and>
   repos_create forge_ok []
     (POST_orgs_repos ''org''
        \<lparr>cp_name = ''r'', cp_description = [], cp_private = True, cp_auto_init = False\<rparr>) = Inr sample_repo \<and>
   result_of (create_repository forge_ok (Some ''org'') ''r'' None True (Some []) False) =
     Some \<lparr>content = [TextContent
             (check_mark @ '' Repository created successfully!\<newline>\<newline>Name: r\<newline>Owner: o'' @
              ''\<newline>Visibility: Private\<newline>URL: https://forge.test/o/r'')],
           isError = None\<rparr>"
proof -
  have empty: "no_files (Some [])"
    by (simp add: no_files_def)
  have call: "create_call (Some ''org'')
      \<lparr>cp_name = ''r'', cp_description = or_else None [], cp_private = True, cp_auto_init = False\<rparr> =
      POST_orgs_repos ''org''
        \<lparr>cp_name = ''r'', cp_description = [], cp_private = True, cp_auto_init = False\<rparr>"
    by (simp add: create_call_def truthy_string_def or_else_def)
  have created: "repos_create forge_ok []
     (POST_orgs_repos ''org''
        \<lparr>cp_name = ''r'', cp_description = [], cp_private = True, cp_auto_init = False\<rparr>) = Inr sample_repo"
    by (simp add: forge_ok_def)
  have repo: "repo_owner_login sample_repo = ''o''" "repo_html_url sample_repo = ''https://forge.test/o/r''"
    by (simp_all add: sample_repo_def)
  show ?thesis
    using empty created
      create_repository_no_files_no_readme [of "Some []" forge_ok "Some ''org''" "''r''" None True]
    by (simp add: call repo)
qed

section \<open>Every reply has a content block\<close>

lemma discuss_pr_replies:
  "\<exists>env tr'. discuss_pr octokit owner repo prNumber query tr = (Inr env, tr') \<and> content env \<noteq> []"
  by (simp add: discuss_pr_def handler_unfold split: sum.splits option.splits)

lemma list_prs_replies:
  "\<exists>env tr'. list_prs octokit owner repo state tr = (Inr env, tr') \<and> content env \<noteq> []"
  by (simp add: list_prs_def handler_unfold split: sum.splits)

lemma comment_on_pr_replies:
  "\<exists>env tr'. comment_on_pr octokit owner repo prNumber comment tr = (Inr env, tr') \<and> content env \<noteq> []"
  by (simp add: comment_on_pr_def handler_unfold split: sum.splits)

lemma request_reviewers_replies:
  "\<exists>env tr'. request_reviewers octokit owner repo prNumber reviewers tr = (Inr env, tr') \<and> content env \<noteq> []"
  by (simp add: request_reviewers_def handler_unfold split: sum.splits)

lemma merge_pr_replies:
  "\<exists>env tr'. merge_pr octokit owner repo prNumber commitTitle commitMessage tr = (Inr env, tr') \<and>
     content env \<noteq> []"
  by (simp add: merge_pr_def handler_unfold split: sum.splits)

lemma summarize_pr_replies:
  "\<exists>env tr'. summarize_pr octokit owner repo prNumber tr = (Inr env, tr') \<and> content env \<noteq> []"
  by (simp add: summarize_pr_def handler_unfold split: sum.splits)

lemma close_pr_replies:
  "\<exists>env tr'. close_pr octokit owner repo prNumber reason tr = (Inr env, tr') \<and> content env \<noteq> []"
  by (simp add: close_pr_def handler_unfold split: sum.splits)

lemma create_repository_replies:
  "\<exists>env tr'. create_repository octokit owner name description isPrivate files initializeWithReadme tr =
     (Inr env, tr') \<and> content env \<noteq> []"
  by (simp add: create_repository_def request_create_call await_promise_all_requests handler_unfold Let_def
      split: sum.splits option.splits)

lemma delete_repository_replies:
  "\<exists>env tr'. delete_repository octokit owner repo confirmation tr = (Inr env, tr') \<and> content env \<noteq> []"
  by (simp add: delete_repository_def handler_unfold request_def throw_io_def split: sum.splits)

text \<open>
  Claim C7. Every tool invocation, whatever the remote calls answer (success, any error,
  or a run cut short by an informational reply), ends with an envelope, never with an
  uncaught error, and the envelope holds at least one content block.
\<close>

theorem every_reply_has_content:
  "\<exists>env tr'. invoke octokit invocation tr = (Inr env, tr') \<and> content env \<noteq> []"
proof (cases invocation)
  case (Discuss_pr owner repo prNumber query)
  then show ?thesis using discuss_pr_replies by simp
next
  case (List_prs owner repo state)
  then show ?thesis using list_prs_replies by simp
next
  case (Comment_on_pr owner repo prNumber comment)
  then show ?thesis using comment_on_pr_replies by simp
next
  case (Request_reviewers owner repo prNumber reviewers)
  then show ?thesis using request_reviewers_replies by simp
next
  case (Merge_pr owner repo prNumber commitTitle commitMessage)
  then show ?thesis using merge_pr_replies by simp
next
  case (Summarize_pr owner repo prNumber)
  then show ?thesis using summarize_pr_replies by simp
next
  case (Close_pr owner repo prNumber reason)
  then show ?thesis using close_pr_replies by simp
next
  case (Create_repository owner name description isPrivate files initializeWithReadme)
  then show ?thesis using create_repository_replies by simp
next
  case (Delete_repository owner repo confirmation)
  then show ?thesis using delete_repository_replies by simp
qed

theorem every_reply_has_content_witness:
  "invoke forge_no_repo (Delete_repository ''o'' ''r'' True) [] =
     (Inr \<lparr>content = [TextContent (warning_sign @ '' Repository o/r does not exist or you don'' @
                         [CHR 0x27] @ ''t have access to it.'')],
           isError = Some True\<rparr>,
      [GET_repo ''o'' ''r'']) \<and>
   content \<lparr>content = [TextContent (warning_sign @ '' Repository o/r does not exist or you don'' @
                         [CHR 0x27] @ ''t have access to it.'')],
            isError = Some True\<rparr> \<noteq> []"
proof -
  obtain env tr' where run: "invoke forge_no_repo (Delete_repository ''o'' ''r'' True) [] = (Inr env, tr')"
    and nonempty: "content env \<noteq> []"
    using every_reply_has_content [of forge_no_repo "Delete_repository ''o'' ''r'' True" "[]"]
    by blast
  have "invoke forge_no_repo (Delete_repository ''o'' ''r'' True) [] =
     (Inr \<lparr>content = [TextContent (warning_sign @ '' Repository o/r does not exist or you don'' @
                         [CHR 0x27] @ ''t have access to it.'')],
           isError = Some True\<rparr>,
      [GET_repo ''o'' ''r''])"
    by (simp add: delete_repository_def io_defs forge_no_repo_def not_found_def)
  with run nonempty show ?thesis
    by simp
qed

end
